theory Spec2Isabelle
  imports Main
begin

section \<open>JavaScript values and asynchronous results\<close>

text \<open>
  Every value that crosses a layer of the blog module is typed \<open>any\<close> in the source
  (\<open>Promise<any>\<close>, untyped \<open>data\<close> parameters), so the embedding works on a datatype
  of JavaScript values. Numbers are the integers (the \<open>id\<close> column is an integer; NaN
  and fractions are outside the model); a \<open>Date\<close> carries its timestamp; an object is
  the list of its properties in insertion order.
\<close>

datatype JsValue =
    JUndefined
  | JNull
  | JBool bool
  | JNum int
  | JStr string
  | JDate nat
  | JArr "JsValue list"
  | JObj "(string \<times> JsValue) list"

text \<open>The test \<open>if (v)\<close> of the source: ToBoolean. Objects, arrays and dates are truthy.\<close>

fun truthy :: "JsValue \<Rightarrow> bool" where
  "truthy JUndefined = False"
| "truthy JNull = False"
| "truthy (JBool b) = b"
| "truthy (JNum n) = (n \<noteq> 0)"
| "truthy (JStr s) = (s \<noteq> [])"
| "truthy (JDate t) = True"
| "truthy (JArr vs) = True"
| "truthy (JObj fs) = True"

text \<open>Reading a property: \<open>undefined\<close> when the object does not have it.\<close>

fun js_get :: "string \<Rightarrow> JsValue \<Rightarrow> JsValue" where
  "js_get k (JObj fs) = (case map_of fs k of Some v \<Rightarrow> v | None \<Rightarrow> JUndefined)"
| "js_get k v = JUndefined"

text \<open>
  A promise that rejects carries an error; the spec's taxonomy has two of them. An
  asynchronous operation is a function of the state of the entity store: it returns
  the rejection or the resolved value together with the store it leaves.
\<close>

datatype error = ConfigurationError | StorageError

type_synonym ('a, 's) Async = "'s \<Rightarrow> (error + 'a) \<times> 's"

text \<open>\<open>await p\<close> followed by the rest of an async function: a rejection propagates.\<close>

definition await :: "('a, 's) Async \<Rightarrow> ('a \<Rightarrow> ('b, 's) Async) \<Rightarrow> ('b, 's) Async" where
  "await p k s = (case p s of (Inl e, s') \<Rightarrow> (Inl e, s') | (Inr v, s') \<Rightarrow> k v s')"

text \<open>\<open>return v\<close> of an async function.\<close>

definition resolve :: "'a \<Rightarrow> ('a, 's) Async" where
  "resolve v s = (Inr v, s)"

section \<open>The entity store handle\<close>

text \<open>
  The ORM's \<open>Repository<Blog>\<close> is an external library object. The repository layer
  uses six of its methods; the handle is the record of them and every layer is
  parametric in it. \<open>create\<close> is synchronous in the library; inside an async function
  a throw of it is a rejection all the same, so it has the type of the others.
\<close>

record 's Repository =
  r_find :: "(JsValue, 's) Async"
  r_findOne :: "JsValue \<Rightarrow> (JsValue, 's) Async"
  r_create :: "JsValue \<Rightarrow> (JsValue, 's) Async"
  r_save :: "JsValue \<Rightarrow> (JsValue, 's) Async"
  r_delete :: "JsValue \<Rightarrow> (JsValue, 's) Async"
  r_update :: "JsValue \<Rightarrow> JsValue \<Rightarrow> (JsValue, 's) Async"

section \<open>BaseRepository\<close>

text \<open>
  An entity manager resolves an entity target to a store handle; the call is the
  library's and may fail or touch the library's own state \<open>'w\<close>. A data source holds
  the default manager.
\<close>

record ('t, 'h, 'w) EntityManager =
  em_getRepository :: "'t \<Rightarrow> 'w \<Rightarrow> (error + 'h) \<times> 'w"

record ('t, 'h, 'w) DataSource =
  manager :: "('t, 'h, 'w) EntityManager"

record ('t, 'h, 'w) BaseRepository =
  datasource :: "('t, 'h, 'w) DataSource"

text \<open>
  \<open>getEntityManager(entityManager?)\<close>: the optional argument is \<open>None\<close> when it is
  omitted or \<open>undefined\<close>; a manager object is truthy.
\<close>

definition getEntityManager ::
  "('t, 'h, 'w) BaseRepository \<Rightarrow> ('t, 'h, 'w) EntityManager option \<Rightarrow> ('t, 'h, 'w) EntityManager" where
  "getEntityManager this entityManager =
     (case entityManager of
        Some em \<Rightarrow> em
      | None \<Rightarrow> manager (datasource this))"

definition getRepository ::
  "('t, 'h, 'w) BaseRepository \<Rightarrow> 't \<Rightarrow> ('t, 'h, 'w) EntityManager option
     \<Rightarrow> 'w \<Rightarrow> (error + 'h) \<times> 'w" where
  "getRepository this entityTarget entityManager =
     (let resolvedEntityManager = getEntityManager this entityManager
      in em_getRepository resolvedEntityManager entityTarget)"

section \<open>BlogRepository\<close>

text \<open>The constructor injects the store handle of \<open>Blog\<close>.\<close>

record 's BlogRepository =
  blogrepository :: "'s Repository"

definition BlogRepository_getArticles :: "'s BlogRepository \<Rightarrow> (JsValue, 's) Async" where
  "BlogRepository_getArticles this = r_find (blogrepository this)"

definition BlogRepository_getArticleById :: "'s BlogRepository \<Rightarrow> int \<Rightarrow> (JsValue, 's) Async" where
  "BlogRepository_getArticleById this blogid =
     r_findOne (blogrepository this) (JObj [(''where'', JObj [(''id'', JNum blogid)])])"

definition BlogRepository_postArticle :: "'s BlogRepository \<Rightarrow> JsValue \<Rightarrow> (JsValue, 's) Async" where
  "BlogRepository_postArticle this data =
     await (r_create (blogrepository this) data)
       (\<lambda>article. r_save (blogrepository this) article)"

definition BlogRepository_deleteArticle :: "'s BlogRepository \<Rightarrow> int \<Rightarrow> (JsValue, 's) Async" where
  "BlogRepository_deleteArticle this articleid =
     r_delete (blogrepository this) (JObj [(''id'', JNum articleid)])"

definition BlogRepository_updateArticle ::
  "'s BlogRepository \<Rightarrow> int \<Rightarrow> JsValue \<Rightarrow> (JsValue, 's) Async" where
  "BlogRepository_updateArticle this articleId data =
     r_update (blogrepository this) (JObj [(''id'', JNum articleId)]) data"

section \<open>BlogService\<close>

record 's BlogService =
  blogRepository :: "'s BlogRepository"

definition BlogService_getArticles :: "'s BlogService \<Rightarrow> (JsValue, 's) Async" where
  "BlogService_getArticles this = BlogRepository_getArticles (blogRepository this)"

definition BlogService_postArticle :: "'s BlogService \<Rightarrow> JsValue \<Rightarrow> (JsValue, 's) Async" where
  "BlogService_postArticle this data = BlogRepository_postArticle (blogRepository this) data"

definition BlogService_getArticlebyID :: "'s BlogService \<Rightarrow> int \<Rightarrow> (JsValue, 's) Async" where
  "BlogService_getArticlebyID this ident = BlogRepository_getArticleById (blogRepository this) ident"

text \<open>
  \<open>deleteArticlebyId\<close> awaits the deletion and tests the resolved value itself; when
  the test fails the function ends without a \<open>return\<close> and resolves to \<open>undefined\<close>.
\<close>

definition BlogService_deleteArticlebyId :: "'s BlogService \<Rightarrow> int \<Rightarrow> (JsValue, 's) Async" where
  "BlogService_deleteArticlebyId this ident =
     await (BlogRepository_deleteArticle (blogRepository this) ident)
       (\<lambda>approval.
          if truthy approval then resolve (JObj [(''success'', JBool True)])
          else resolve JUndefined)"

definition BlogService_updateArticlebyId ::
  "'s BlogService \<Rightarrow> int \<Rightarrow> JsValue \<Rightarrow> (JsValue, 's) Async" where
  "BlogService_updateArticlebyId this ident data =
     await (BlogRepository_updateArticle (blogRepository this) ident data)
       (\<lambda>confirmation. resolve confirmation)"

section \<open>BlogController\<close>

text \<open>
  The handlers of the five routes. The route parameter \<open>id\<close> is declared a number and
  is handed on as it is; the body is the field bag, handed on as it is.
\<close>

record 's BlogController =
  blogService :: "'s BlogService"

definition BlogController_getArticles :: "'s BlogController \<Rightarrow> (JsValue, 's) Async" where
  "BlogController_getArticles this =
     await (BlogService_getArticles (blogService this))
       (\<lambda>articles. resolve (JObj [(''success'', JBool True), (''Articles'', articles)]))"

definition BlogController_getSingleArticle :: "'s BlogController \<Rightarrow> int \<Rightarrow> (JsValue, 's) Async" where
  "BlogController_getSingleArticle this ident =
     await (BlogService_getArticlebyID (blogService this) ident)
       (\<lambda>article. resolve (JObj [(''success'', JBool True), (''article'', article)]))"

definition BlogController_postArticle :: "'s BlogController \<Rightarrow> JsValue \<Rightarrow> (JsValue, 's) Async" where
  "BlogController_postArticle this createArticleDto =
     await (BlogService_postArticle (blogService this) createArticleDto)
       (\<lambda>response. resolve (JObj [(''success'', JBool True), (''response'', response)]))"

definition BlogController_deleteArticle :: "'s BlogController \<Rightarrow> int \<Rightarrow> (JsValue, 's) Async" where
  "BlogController_deleteArticle this ident =
     await (BlogService_deleteArticlebyId (blogService this) ident)
       (\<lambda>response. resolve response)"

definition BlogController_updateArticle ::
  "'s BlogController \<Rightarrow> JsValue \<Rightarrow> int \<Rightarrow> (JsValue, 's) Async" where
  "BlogController_updateArticle this updateArticleDto ident =
     await (BlogService_updateArticlebyId (blogService this) ident updateArticleDto)
       (\<lambda>result.
          if truthy result then resolve (JObj [(''success'', JBool True)])
          else resolve JUndefined)"

section \<open>The Blog entity\<close>

text \<open>
  The entity class: a generated primary key, a name, and the three date columns the
  store maintains. The first field is the source's \<open>id\<close>.
\<close>

record Blog =
  blog_id :: int
  name :: string
  updated_at :: nat
  created_at :: nat
  deleted_at :: "nat option"

text \<open>The entity classes registered with the data source: \<open>entities : [Blog]\<close>.\<close>

datatype EntityTarget = Blog_entity

section \<open>A reference entity store\<close>

text \<open>
  Modelled from the spec: the table behind the store handle. The ORM and the database
  are not part of the repository's sources; the spec's data model (section 3) gives a
  table of Article records with a system-generated unique id and store-assigned
  timestamps. \<open>next_id\<close> is the id sequence, \<open>clock\<close> the store's time.
\<close>

record Table =
  rows :: "Blog list"
  next_id :: int
  clock :: nat

text \<open>
  Modelled from the spec: the record as the store hands it out, with all five
  columns; \<open>deleted_at\<close> is \<open>null\<close> on a record that is not soft-deleted.
\<close>

definition Blog_toJs :: "Blog \<Rightarrow> JsValue" where
  "Blog_toJs b =
     JObj [(''id'', JNum (blog_id b)),
           (''name'', JStr (name b)),
           (''updated_at'', JDate (updated_at b)),
           (''created_at'', JDate (created_at b)),
           (''deleted_at'', (case deleted_at b of None \<Rightarrow> JNull | Some t \<Rightarrow> JDate t))]"

text \<open>
  Modelled from the spec: a record whose \<open>deleted_at\<close> is non-null is considered
  soft-deleted; reads return live records.
\<close>

definition live :: "Blog \<Rightarrow> bool" where
  "live b = (deleted_at b = None)"

text \<open>
  Modelled from the spec: the affected-row summary of a delete, a result that describes
  how many records were touched without returning their content. It is an object, with
  the field names of the ORM's result type.
\<close>

definition DeleteResult :: "int \<Rightarrow> JsValue" where
  "DeleteResult n = JObj [(''raw'', JArr []), (''affected'', JNum n)]"

text \<open>Modelled from the spec: the affected-row summary of an update.\<close>

definition UpdateResult :: "int \<Rightarrow> JsValue" where
  "UpdateResult n = JObj [(''generatedMaps'', JArr []), (''raw'', JArr []), (''affected'', JNum n)]"

text \<open>Modelled from the spec: \<open>list_articles\<close> returns all live records.\<close>

definition store_find :: "(JsValue, Table) Async" where
  "store_find s = (Inr (JArr (map Blog_toJs (filter live (rows s)))), s)"

text \<open>
  Modelled from the spec: \<open>get_article\<close> returns one record whose id matches, or the
  explicit absent result \<open>null\<close>; it never fails for the not-found case. Options that
  do not select by a numeric id are not issued by the source and are rejected.
\<close>

definition store_findOne :: "JsValue \<Rightarrow> (JsValue, Table) Async" where
  "store_findOne options s =
     (case js_get ''id'' (js_get ''where'' options) of
        JNum k \<Rightarrow>
          (case List.find (\<lambda>b. blog_id b = k \<and> live b) (rows s) of
             Some b \<Rightarrow> (Inr (Blog_toJs b), s)
           | None \<Rightarrow> (Inr JNull, s))
      | _ \<Rightarrow> (Inl StorageError, s))"

text \<open>
  Modelled from the spec: \<open>create_article\<close> constructs a new record from the given
  field set, of which only \<open>name\<close> is meaningful. Nothing is stored yet.
\<close>

definition store_create :: "JsValue \<Rightarrow> (JsValue, Table) Async" where
  "store_create entityLike s =
     (Inr (JObj (case js_get ''name'' entityLike of
                   JUndefined \<Rightarrow> []
                 | v \<Rightarrow> [(''name'', v)])), s)"

text \<open>
  Modelled from the spec: saving assigns identity and timestamps, persists, and returns
  the persisted record including the generated fields. \<open>name\<close> is a required string
  and \<open>id\<close> is unique: a violated constraint is a \<open>StorageError\<close> and stores nothing.
\<close>

definition store_save :: "JsValue \<Rightarrow> (JsValue, Table) Async" where
  "store_save entity s =
     (case js_get ''name'' entity of
        JStr n \<Rightarrow>
          (if next_id s \<in> set (map blog_id (rows s)) then (Inl StorageError, s)
           else
             (let b = \<lparr>blog_id = next_id s, name = n, updated_at = clock s,
                       created_at = clock s, deleted_at = None\<rparr>
              in (Inr (Blog_toJs b),
                  s\<lparr>rows := rows s @ [b], next_id := next_id s + 1, clock := clock s + 1\<rparr>)))
      | _ \<Rightarrow> (Inl StorageError, s))"

text \<open>
  Modelled from the spec: \<open>delete_article\<close> removes the record with the given id (a
  hard removal) and returns the affected-row summary with the number of rows affected;
  a non-existent id affects 0 rows and is no error.
\<close>

definition store_delete :: "JsValue \<Rightarrow> (JsValue, Table) Async" where
  "store_delete criteria s =
     (case js_get ''id'' criteria of
        JNum k \<Rightarrow>
          (Inr (DeleteResult (int (length (filter (\<lambda>b. blog_id b = k) (rows s))))),
           s\<lparr>rows := filter (\<lambda>b. blog_id b \<noteq> k) (rows s)\<rparr>)
      | _ \<Rightarrow> (Inl StorageError, s))"

text \<open>
  Modelled from the spec: \<open>update_article\<close> applies the given field subset to the
  record matching the id and returns an affected-row summary, not the record. Of the
  columns the data model makes \<open>name\<close> the mutable one; \<open>updated_at\<close> is refreshed.
  A non-existent id affects 0 rows and is no error.
\<close>

definition store_update :: "JsValue \<Rightarrow> JsValue \<Rightarrow> (JsValue, Table) Async" where
  "store_update criteria partialEntity s =
     (case js_get ''id'' criteria of
        JNum k \<Rightarrow>
          (Inr (UpdateResult (int (length (filter (\<lambda>b. blog_id b = k) (rows s))))),
           s\<lparr>rows :=
                map (\<lambda>b. if blog_id b = k
                          then b\<lparr>name := (case js_get ''name'' partialEntity of
                                              JStr n \<Rightarrow> n
                                            | _ \<Rightarrow> name b),
                                 updated_at := clock s\<rparr>
                          else b) (rows s),
              clock := clock s + 1\<rparr>)
      | _ \<Rightarrow> (Inl StorageError, s))"

text \<open>Modelled from the spec: the store handle over the table.\<close>

definition EntityStore :: "Table Repository" where
  "EntityStore =
     \<lparr>r_find = store_find, r_findOne = store_findOne, r_create = store_create,
      r_save = store_save, r_delete = store_delete, r_update = store_update\<rparr>"

text \<open>The table of a fresh database, and the three layers wired over the store.\<close>

definition emptyTable :: Table where
  "emptyTable = \<lparr>rows = [], next_id = 1, clock = 0\<rparr>"

definition blogRepositoryOf :: "'s Repository \<Rightarrow> 's BlogRepository" where
  "blogRepositoryOf h = \<lparr>blogrepository = h\<rparr>"

definition blogServiceOf :: "'s Repository \<Rightarrow> 's BlogService" where
  "blogServiceOf h = \<lparr>blogRepository = blogRepositoryOf h\<rparr>"

definition blogControllerOf :: "'s Repository \<Rightarrow> 's BlogController" where
  "blogControllerOf h = \<lparr>blogService = blogServiceOf h\<rparr>"

text \<open>
  A test double for the store handle, as a unit test provides one: every call resolves
  to the same value and touches nothing.
\<close>

definition StubStore :: "JsValue \<Rightarrow> unit Repository" where
  "StubStore v =
     \<lparr>r_find = resolve v, r_findOne = (\<lambda>options. resolve v), r_create = (\<lambda>entityLike. resolve v),
      r_save = (\<lambda>entity. resolve v), r_delete = (\<lambda>criteria. resolve v),
      r_update = (\<lambda>criteria partialEntity. resolve v)\<rparr>"

text \<open>A data-access base whose data source resolves every entity to the given handle.\<close>

definition baseOver :: "'h \<Rightarrow> (EntityTarget, 'h, unit) BaseRepository" where
  "baseOver h =
     \<lparr>datasource = \<lparr>manager = \<lparr>em_getRepository = (\<lambda>entityTarget w. (Inr h, w))\<rparr>\<rparr>\<rparr>"

text \<open>
  The table after \<open>{name: "Hello"}\<close> has been created in a fresh database.
\<close>

definition oneArticle :: Table where
  "oneArticle =
     \<lparr>rows = [\<lparr>blog_id = 1, name = ''Hello'', updated_at = 0, created_at = 0,
                deleted_at = None\<rparr>],
      next_id = 2, clock = 1\<rparr>"

text \<open>
  A valid field set for a create supplies the required \<open>name\<close> as a string and leaves
  the columns the store maintains (\<open>id\<close> and the three dates) to the store.
\<close>

definition valid_fields :: "JsValue \<Rightarrow> bool" where
  "valid_fields f =
     (case js_get ''name'' f of
        JStr n \<Rightarrow>
          js_get ''id'' f = JUndefined \<and> js_get ''created_at'' f = JUndefined
          \<and> js_get ''updated_at'' f = JUndefined \<and> js_get ''deleted_at'' f = JUndefined
      | _ \<Rightarrow> False)"

text \<open>
  The invariant of the table: ids are unique (the primary key) and every id in use lies
  below the id sequence. It holds of the fresh database and every operation keeps it.
\<close>

definition table_ok :: "Table \<Rightarrow> bool" where
  "table_ok s =
     (list_all (\<lambda>i. i < next_id s) (map blog_id (rows s)) \<and> distinct (map blog_id (rows s)))"

section \<open>Awaiting\<close>

lemma await_resolve: "await p resolve = p"
  by (rule ext) (simp add: await_def resolve_def split: prod.splits sum.splits)

section \<open>The data-access base\<close>

text \<open>
  C3: \<open>getRepository\<close> with a supplied entity manager returns the handle that this
  manager resolves for the entity target; with none it returns the handle that the
  data source's own manager resolves. In both cases the outcome and the state left
  behind are exactly those of that one call: the operation does nothing else.
\<close>

theorem getRepository_resolves:
  "getRepository this entityTarget (Some em) w = em_getRepository em entityTarget w
   \<and> getRepository this entityTarget None w
       = em_getRepository (manager (datasource this)) entityTarget w"
  by (simp add: getRepository_def getEntityManager_def)

section \<open>Pass-through of the layers\<close>

text \<open>
  C10: on the create and the update endpoint the field bag received by the controller
  is, unchanged, the argument of the store's \<open>create\<close> and of the store's \<open>update\<close>:
  for every store handle the handler is the store call on that very bag (the record
  built by \<open>create\<close> goes to \<open>save\<close>), followed by the wrapping of the result. No layer
  removes, rejects or transforms a field.
\<close>

theorem field_bag_passed_unchanged:
  "BlogController_postArticle (blogControllerOf h) dto
     = await (await (r_create h dto) (r_save h))
         (\<lambda>response. resolve (JObj [(''success'', JBool True), (''response'', response)]))
   \<and> BlogController_updateArticle (blogControllerOf h) dto k
     = await (r_update h (JObj [(''id'', JNum k)]) dto)
         (\<lambda>result. if truthy result then resolve (JObj [(''success'', JBool True)])
                    else resolve JUndefined)"
  by (simp add: BlogController_postArticle_def BlogController_updateArticle_def
      BlogService_postArticle_def BlogService_updateArticlebyId_def
      BlogRepository_postArticle_def BlogRepository_updateArticle_def
      blogControllerOf_def blogServiceOf_def blogRepositoryOf_def await_resolve)

section \<open>Updating through the controller\<close>

text \<open>
  C9: whenever the store's update resolves, also when it affected no row, the PATCH
  handler resolves to \<open>{success: true}\<close> as soon as the resolved value is an object,
  which an update result is. The handler ends without a body exactly when the resolved
  value is falsy.
\<close>

theorem updateArticle_success_whenever_resolved:
  assumes "r_update h (JObj [(''id'', JNum k)]) dto s = (Inr result, s')"
  shows "((\<exists>fs. result = JObj fs) \<longrightarrow>
            BlogController_updateArticle (blogControllerOf h) dto k s
              = (Inr (JObj [(''success'', JBool True)]), s'))
         \<and> (BlogController_updateArticle (blogControllerOf h) dto k s = (Inr JUndefined, s')
              \<longleftrightarrow> \<not> truthy result)"
  using assms
  by (auto simp: BlogController_updateArticle_def BlogService_updateArticlebyId_def
      BlogRepository_updateArticle_def blogControllerOf_def blogServiceOf_def
      blogRepositoryOf_def await_resolve await_def resolve_def)

theorem updateArticle_absent_id_witness:
  "fst (BlogController_updateArticle (blogControllerOf EntityStore)
          (JObj [(''name'', JStr ''X'')]) 42 emptyTable)
     = Inr (JObj [(''success'', JBool True)])"
  using updateArticle_success_whenever_resolved
    [of EntityStore 42 "JObj [(''name'', JStr ''X'')]" emptyTable "UpdateResult 0"
        "emptyTable\<lparr>clock := 1\<rparr>"]
  by (simp add: EntityStore_def store_update_def emptyTable_def UpdateResult_def)

section \<open>Deleting through the service\<close>

text \<open>
  C1: the service tests the resolved deletion result itself, not its affected count.
  Whenever the store's delete resolves to an object, as a deletion result is, then
  whatever the object's fields say \<open>deleteArticlebyId\<close> resolves to \<open>{success: true}\<close>.
  For a deletion result with affected count 0 the code answers success where the claim
  says \<open>undefined\<close>.
\<close>

theorem deleteArticlebyId_success_for_every_count:
  assumes "r_delete h (JObj [(''id'', JNum k)]) s = (Inr (JObj fs), s')"
  shows "BlogService_deleteArticlebyId (blogServiceOf h) k s
           = (Inr (JObj [(''success'', JBool True)]), s')"
  using assms
  by (simp add: BlogService_deleteArticlebyId_def BlogRepository_deleteArticle_def
      blogServiceOf_def blogRepositoryOf_def await_def resolve_def)

theorem deleteArticlebyId_absent_id_witness:
  "r_delete EntityStore (JObj [(''id'', JNum 7)]) emptyTable = (Inr (DeleteResult 0), emptyTable)
   \<and> BlogService_deleteArticlebyId (blogServiceOf EntityStore) 7 emptyTable
       = (Inr (JObj [(''success'', JBool True)]), emptyTable)"
  using deleteArticlebyId_success_for_every_count
    [of EntityStore 7 emptyTable "[(''raw'', JArr []), (''affected'', JNum 0)]" emptyTable]
  by (simp add: EntityStore_def store_delete_def emptyTable_def DeleteResult_def)

section \<open>The repository and the data-access base\<close>

text \<open>
  C2, as amended: each of the five operations of the Article repository is the
  corresponding call on the store handle injected into its constructor. The
  data-access base takes no part: the repository neither extends it nor calls its
  store resolution.
\<close>

theorem BlogRepository_uses_injected_handle:
  "BlogRepository_getArticles (blogRepositoryOf h) = r_find h
   \<and> BlogRepository_getArticleById (blogRepositoryOf h) k
       = r_findOne h (JObj [(''where'', JObj [(''id'', JNum k)])])
   \<and> BlogRepository_postArticle (blogRepositoryOf h) d = await (r_create h d) (r_save h)
   \<and> BlogRepository_deleteArticle (blogRepositoryOf h) k = r_delete h (JObj [(''id'', JNum k)])
   \<and> BlogRepository_updateArticle (blogRepositoryOf h) k d
       = r_update h (JObj [(''id'', JNum k)]) d"
  by (simp add: BlogRepository_getArticles_def BlogRepository_getArticleById_def
      BlogRepository_postArticle_def BlogRepository_deleteArticle_def
      BlogRepository_updateArticle_def blogRepositoryOf_def)

text \<open>
  C2, as stated, fails: the data-access base resolves \<open>Blog\<close> to one handle (here one
  that lists no article), the repository was constructed with another (one that lists
  an article), and \<open>getArticles\<close> answers from the injected handle, not from the one
  the base resolves.
\<close>

theorem BlogRepository_bypasses_base_counterexample:
  "fst (getRepository (baseOver (StubStore (JArr []))) Blog_entity None ())
     = Inr (StubStore (JArr []))
   \<and> BlogRepository_getArticles (blogRepositoryOf (StubStore (JArr [JStr ''injected'']))) ()
       \<noteq> r_find (StubStore (JArr [])) ()"
  by (simp add: getRepository_def getEntityManager_def baseOver_def
      BlogRepository_getArticles_def blogRepositoryOf_def StubStore_def resolve_def)

section \<open>The repository over the reference store\<close>

lemma find_snoc:
  "List.find P (xs @ [b])
     = (case List.find P xs of Some x \<Rightarrow> Some x | None \<Rightarrow> if P b then Some b else None)"
  by (induction xs) auto

lemma count_distinct:
  "distinct (map f xs)
     \<Longrightarrow> length (filter (\<lambda>b. f b = k) xs) = (if k \<in> set (map f xs) then 1 else 0)"
  by (induction xs) (auto simp: image_iff)

lemma js_get_Blog_toJs_id: "js_get ''id'' (Blog_toJs b) = JNum (blog_id b)"
  by (simp add: Blog_toJs_def)

lemma getArticleById_EntityStore:
  "BlogRepository_getArticleById (blogRepositoryOf EntityStore) k s =
     (case List.find (\<lambda>b. blog_id b = k \<and> live b) (rows s) of
        Some b \<Rightarrow> (Inr (Blog_toJs b), s)
      | None \<Rightarrow> (Inr JNull, s))"
  by (simp add: BlogRepository_getArticleById_def blogRepositoryOf_def EntityStore_def
      store_findOne_def)

lemma deleteArticle_EntityStore:
  "BlogRepository_deleteArticle (blogRepositoryOf EntityStore) k s =
     (Inr (DeleteResult (int (length (filter (\<lambda>b. blog_id b = k) (rows s))))),
      s\<lparr>rows := filter (\<lambda>b. blog_id b \<noteq> k) (rows s)\<rparr>)"
  by (simp add: BlogRepository_deleteArticle_def blogRepositoryOf_def EntityStore_def
      store_delete_def)

lemma postArticle_EntityStore:
  "BlogRepository_postArticle (blogRepositoryOf EntityStore) f s =
     store_save (JObj (case js_get ''name'' f of JUndefined \<Rightarrow> [] | v \<Rightarrow> [(''name'', v)])) s"
  by (simp add: BlogRepository_postArticle_def blogRepositoryOf_def EntityStore_def
      store_create_def await_def)

lemma updateArticle_EntityStore:
  "BlogRepository_updateArticle (blogRepositoryOf EntityStore) k d s
     = store_update (JObj [(''id'', JNum k)]) d s"
  by (simp add: BlogRepository_updateArticle_def blogRepositoryOf_def EntityStore_def)

text \<open>What a create that resolved has done: one new record, with the next id of the sequence.\<close>

lemma postArticle_resolved:
  assumes "BlogRepository_postArticle (blogRepositoryOf EntityStore) f s = (Inr a, s1)"
  shows "\<exists>n. js_get ''name'' f = JStr n
           \<and> next_id s \<notin> set (map blog_id (rows s))
           \<and> a = Blog_toJs \<lparr>blog_id = next_id s, name = n, updated_at = clock s,
                             created_at = clock s, deleted_at = None\<rparr>
           \<and> s1 = s\<lparr>rows := rows s @ [\<lparr>blog_id = next_id s, name = n, updated_at = clock s,
                                         created_at = clock s, deleted_at = None\<rparr>],
                     next_id := next_id s + 1, clock := clock s + 1\<rparr>"
  using assms
  by (auto simp: postArticle_EntityStore store_save_def Let_def split: JsValue.splits if_splits)

lemma postArticle_resolves:
  assumes "js_get ''name'' f = JStr n" and "next_id s \<notin> set (map blog_id (rows s))"
  shows "\<exists>a s1. BlogRepository_postArticle (blogRepositoryOf EntityStore) f s = (Inr a, s1)"
  using assms by (simp add: postArticle_EntityStore store_save_def Let_def)

lemma valid_fields_name: "valid_fields f \<Longrightarrow> \<exists>n. js_get ''name'' f = JStr n"
  by (auto simp: valid_fields_def split: JsValue.splits)

lemma table_ok_fresh: "table_ok s \<Longrightarrow> next_id s \<notin> set (map blog_id (rows s))"
  by (auto simp: table_ok_def list_all_iff)

lemma getArticleById_appended:
  assumes "k \<notin> set (map blog_id (rows s))" and "blog_id b = k" and "deleted_at b = None"
  shows "BlogRepository_getArticleById (blogRepositoryOf EntityStore) k
           (s\<lparr>rows := rows s @ [b], next_id := i, clock := c\<rparr>)
         = (Inr (Blog_toJs b), s\<lparr>rows := rows s @ [b], next_id := i, clock := c\<rparr>)"
proof -
  have "List.find (\<lambda>x. blog_id x = k \<and> live x) (rows s) = None"
    using assms(1) by (auto simp: find_None_iff)
  then show ?thesis
    using assms(2,3) by (simp add: getArticleById_EntityStore find_snoc live_def)
qed

lemma getArticleById_after_delete:
  "BlogRepository_getArticleById (blogRepositoryOf EntityStore) k
      (snd (BlogRepository_deleteArticle (blogRepositoryOf EntityStore) k s))
    = (Inr JNull, snd (BlogRepository_deleteArticle (blogRepositoryOf EntityStore) k s))"
proof -
  have "List.find (\<lambda>b. blog_id b = k \<and> live b) (filter (\<lambda>b. blog_id b \<noteq> k) (rows s)) = None"
    by (auto simp: find_None_iff)
  then show ?thesis
    by (simp add: getArticleById_EntityStore deleteArticle_EntityStore)
qed

subsection \<open>The invariant of the table\<close>

lemma table_ok_emptyTable: "table_ok emptyTable"
  by (simp add: table_ok_def emptyTable_def)

lemma table_ok_postArticle:
  "table_ok s \<Longrightarrow> table_ok (snd (BlogRepository_postArticle (blogRepositoryOf EntityStore) f s))"
  by (auto simp: postArticle_EntityStore store_save_def Let_def table_ok_def list_all_iff
      split: JsValue.splits)

lemma table_ok_deleteArticle:
  "table_ok s \<Longrightarrow> table_ok (snd (BlogRepository_deleteArticle (blogRepositoryOf EntityStore) k s))"
  by (auto simp: deleteArticle_EntityStore table_ok_def list_all_iff distinct_map_filter)

lemma table_ok_updateArticle:
  "table_ok s \<Longrightarrow> table_ok (snd (BlogRepository_updateArticle (blogRepositoryOf EntityStore) k d s))"
proof -
  have "map blog_id (rows (snd (store_update (JObj [(''id'', JNum k)]) d s))) = map blog_id (rows s)"
    by (simp add: store_update_def comp_def if_distrib cong: if_cong)
  moreover have "next_id (snd (store_update (JObj [(''id'', JNum k)]) d s)) = next_id s"
    by (simp add: store_update_def)
  ultimately show "table_ok s \<Longrightarrow> ?thesis"
    by (simp add: updateArticle_EntityStore table_ok_def)
qed

lemma getArticles_leaves_table:
  "snd (BlogRepository_getArticles (blogRepositoryOf EntityStore) s) = s"
  by (simp add: BlogRepository_getArticles_def blogRepositoryOf_def EntityStore_def
      store_find_def)

lemma getArticleById_leaves_table:
  "snd (BlogRepository_getArticleById (blogRepositoryOf EntityStore) k s) = s"
  by (simp add: getArticleById_EntityStore split: option.splits)

subsection \<open>Fetching by id\<close>

text \<open>
  C4: for every id, \<open>getArticleById\<close> resolves, and leaves the table as it was. It
  resolves to \<open>null\<close> when the table has no live record with that id, and otherwise to
  one record of the table, whose \<open>id\<close> field is the given id. When no record with
  that id exists the result is \<open>null\<close>, not a rejection.
\<close>

theorem getArticleById_record_or_null:
  "\<exists>v. BlogRepository_getArticleById (blogRepositoryOf EntityStore) k s = (Inr v, s)
     \<and> (v = JNull \<and> \<not> (\<exists>b \<in> set (rows s). blog_id b = k \<and> live b)
        \<or> (\<exists>b \<in> set (rows s). live b \<and> v = Blog_toJs b) \<and> js_get ''id'' v = JNum k)
     \<and> ((\<forall>b \<in> set (rows s). blog_id b \<noteq> k) \<longrightarrow> v = JNull)"
proof (cases "List.find (\<lambda>b. blog_id b = k \<and> live b) (rows s)")
  case None
  then have "\<not> (\<exists>b \<in> set (rows s). blog_id b = k \<and> live b)"
    by (auto simp: find_None_iff)
  then show ?thesis
    by (simp add: getArticleById_EntityStore None)
next
  case (Some b)
  then have "b \<in> set (rows s)" and "blog_id b = k" and "live b"
    by (auto simp: find_Some_iff)
  then show ?thesis
    by (auto simp: getArticleById_EntityStore Some js_get_Blog_toJs_id)
qed

theorem getArticleById_empty_store_witness:
  "BlogRepository_getArticleById (blogRepositoryOf EntityStore) 9999999 emptyTable
     = (Inr JNull, emptyTable)"
  using getArticleById_record_or_null [of 9999999 emptyTable]
  by (auto simp: emptyTable_def)

subsection \<open>Deleting by id\<close>

text \<open>
  On a table with unique ids a deletion through the repository resolves to a deletion
  result whose affected count is 1 when a record with the id existed and 0 when none
  did. Afterwards the records with that id are gone and the others are untouched.
\<close>

lemma deleteArticle_affected_count:
  assumes "distinct (map blog_id (rows s))"
  shows "\<exists>s'. BlogRepository_deleteArticle (blogRepositoryOf EntityStore) k s
            = (Inr (DeleteResult (if k \<in> set (map blog_id (rows s)) then 1 else 0)), s')
          \<and> rows s' = filter (\<lambda>b. blog_id b \<noteq> k) (rows s)
          \<and> k \<notin> set (map blog_id (rows s'))"
  using count_distinct [OF assms, of k]
  by (auto simp: deleteArticle_EntityStore)

subsection \<open>Create, then fetch\<close>

text \<open>
  C6: for every valid field set \<open>f\<close>, a create on a table that satisfies the invariant
  resolves; and whenever a create of \<open>f\<close> resolved to a record \<open>a\<close>, that record has the
  name of \<open>f\<close>, an \<open>id\<close> that is a number and \<open>created_at\<close> and \<open>updated_at\<close> that are
  dates, and fetching by that id right afterwards resolves to \<open>a\<close> itself.
\<close>

theorem create_then_get:
  assumes "valid_fields f"
  shows "(table_ok s \<longrightarrow>
            (\<exists>a s1. BlogRepository_postArticle (blogRepositoryOf EntityStore) f s = (Inr a, s1)))
       \<and> (\<forall>a s1. BlogRepository_postArticle (blogRepositoryOf EntityStore) f s = (Inr a, s1) \<longrightarrow>
            (\<exists>k n t u. js_get ''id'' a = JNum k
               \<and> js_get ''name'' f = JStr n \<and> js_get ''name'' a = JStr n
               \<and> js_get ''created_at'' a = JDate t \<and> js_get ''updated_at'' a = JDate u
               \<and> BlogRepository_getArticleById (blogRepositoryOf EntityStore) k s1 = (Inr a, s1)))"
proof (intro conjI impI allI)
  assume "table_ok s"
  then show "\<exists>a s1. BlogRepository_postArticle (blogRepositoryOf EntityStore) f s = (Inr a, s1)"
    using valid_fields_name [OF assms] postArticle_resolves table_ok_fresh by blast
next
  fix a s1
  assume "BlogRepository_postArticle (blogRepositoryOf EntityStore) f s = (Inr a, s1)"
  from postArticle_resolved [OF this] obtain n where
    n: "js_get ''name'' f = JStr n" and
    fresh: "next_id s \<notin> set (map blog_id (rows s))" and
    a: "a = Blog_toJs \<lparr>blog_id = next_id s, name = n, updated_at = clock s,
                       created_at = clock s, deleted_at = None\<rparr>" and
    s1: "s1 = s\<lparr>rows := rows s @ [\<lparr>blog_id = next_id s, name = n, updated_at = clock s,
                                   created_at = clock s, deleted_at = None\<rparr>],
               next_id := next_id s + 1, clock := clock s + 1\<rparr>"
    by blast
  have "BlogRepository_getArticleById (blogRepositoryOf EntityStore) (next_id s) s1 = (Inr a, s1)"
    unfolding a s1 by (rule getArticleById_appended [OF fresh]) simp_all
  then show "\<exists>k n t u. js_get ''id'' a = JNum k
               \<and> js_get ''name'' f = JStr n \<and> js_get ''name'' a = JStr n
               \<and> js_get ''created_at'' a = JDate t \<and> js_get ''updated_at'' a = JDate u
               \<and> BlogRepository_getArticleById (blogRepositoryOf EntityStore) k s1 = (Inr a, s1)"
    using n by (simp add: a Blog_toJs_def)
qed

theorem create_then_get_witness:
  "BlogRepository_postArticle (blogRepositoryOf EntityStore) (JObj [(''name'', JStr ''Hello'')])
       emptyTable
     = (Inr (Blog_toJs \<lparr>blog_id = 1, name = ''Hello'', updated_at = 0, created_at = 0,
                         deleted_at = None\<rparr>), oneArticle)
   \<and> BlogRepository_getArticleById (blogRepositoryOf EntityStore) 1 oneArticle
     = (Inr (Blog_toJs \<lparr>blog_id = 1, name = ''Hello'', updated_at = 0, created_at = 0,
                         deleted_at = None\<rparr>), oneArticle)"
  using create_then_get [of "JObj [(''name'', JStr ''Hello'')]" emptyTable]
  by (simp add: valid_fields_def postArticle_EntityStore store_save_def
      getArticleById_EntityStore emptyTable_def oneArticle_def live_def Let_def)

subsection \<open>Delete, then fetch\<close>

text \<open>
  C7: for every id that a create returned, deleting that id resolves, and fetching the
  same id right afterwards resolves to the absent result \<open>null\<close>.
\<close>

theorem delete_then_get_absent:
  assumes "BlogRepository_postArticle (blogRepositoryOf EntityStore) f s = (Inr a, s1)"
    and "js_get ''id'' a = JNum k"
  shows "\<exists>d s2. BlogRepository_deleteArticle (blogRepositoryOf EntityStore) k s1 = (Inr d, s2)
           \<and> BlogRepository_getArticleById (blogRepositoryOf EntityStore) k s2 = (Inr JNull, s2)"
  using getArticleById_after_delete [of k s1]
  by (simp add: deleteArticle_EntityStore)

theorem delete_then_get_absent_witness:
  "BlogRepository_getArticleById (blogRepositoryOf EntityStore) 1
      (snd (BlogRepository_deleteArticle (blogRepositoryOf EntityStore) 1 oneArticle))
     = (Inr JNull, emptyTable\<lparr>next_id := 2, clock := 1\<rparr>)"
  using delete_then_get_absent [of "JObj [(''name'', JStr ''Hello'')]" emptyTable
      "Blog_toJs \<lparr>blog_id = 1, name = ''Hello'', updated_at = 0, created_at = 0,
                  deleted_at = None\<rparr>" oneArticle 1]
  by (simp add: postArticle_EntityStore store_save_def getArticleById_EntityStore
      deleteArticle_EntityStore emptyTable_def oneArticle_def Blog_toJs_def)

end
